theory Spec2Isabelle
  imports Main
begin

section \<open>JavaScript values used by the health check\<close>

text \<open>
  The health check of \<^verbatim>\<open>src/electron/main.ts\<close> is the IPC handler
  \<^verbatim>\<open>'ping-mcp-server'\<close> (lines 197-213) with its two helpers
  \<^verbatim>\<open>checkCommandAvailability\<close> (lines 225-238) and
  \<^verbatim>\<open>checkMCPServerConnection\<close> (lines 241-301).

  A JavaScript string is modelled as a \<^typ>\<open>string\<close>: the model covers the strings whose
  code units are below 256, one \<^typ>\<open>char\<close> per code unit.

  The variable \<^verbatim>\<open>port\<close> holds a JavaScript number that is either \<^verbatim>\<open>NaN\<close> or an integer
  (\<^verbatim>\<open>0\<close>, \<^verbatim>\<open>8080\<close> or a result of \<^verbatim>\<open>parseInt\<close>). The integer is kept exactly; JavaScript
  rounds an integer beyond \<open>2^53\<close> to the nearest double, which changes neither its sign
  nor whether it is zero, so every test the code makes on \<^verbatim>\<open>port\<close> is modelled exactly.
\<close>

datatype jsnum = NaN | Num int

text \<open>\<^verbatim>\<open>!port\<close>: a number is falsy when it is \<^verbatim>\<open>NaN\<close>, \<^verbatim>\<open>0\<close> or \<^verbatim>\<open>-0\<close>.\<close>

fun falsy :: "jsnum \<Rightarrow> bool" where
  "falsy NaN = True"
| "falsy (Num n) = (n = 0)"

fun isNaN :: "jsnum \<Rightarrow> bool" where
  "isNaN NaN = True"
| "isNaN (Num n) = False"

subsection \<open>\<^verbatim>\<open>parseInt(s, 10)\<close>\<close>

text \<open>
  ECMAScript \<^verbatim>\<open>parseInt\<close> with radix 10: leading white space is trimmed, one sign is read,
  the longest prefix of decimal digits is taken; no digit gives \<^verbatim>\<open>NaN\<close>. The white space
  and line terminator code units below 256 are TAB, LF, VT, FF, CR, SP and NBSP.
\<close>

definition isWhiteSpace :: "char \<Rightarrow> bool" where
  "isWhiteSpace c = (of_char c \<in> {9, 10, 11, 12, 13, 32, 160 :: nat})"

definition isDigit :: "char \<Rightarrow> bool" where
  "isDigit c = (48 \<le> (of_char c :: nat) \<and> (of_char c :: nat) \<le> 57)"

definition digitValue :: "char \<Rightarrow> int" where
  "digitValue c = int (of_char c) - 48"

fun digitsValue :: "int \<Rightarrow> string \<Rightarrow> int" where
  "digitsValue acc [] = acc"
| "digitsValue acc (c # cs) = digitsValue (acc * 10 + digitValue c) cs"

definition parseInt :: "string \<Rightarrow> jsnum" where
  "parseInt s =
     (let t = dropWhile isWhiteSpace s;
          sign = (case t of c # r \<Rightarrow> if c = CHR ''-'' then - 1 else 1 | [] \<Rightarrow> 1);
          u = (case t of c # r \<Rightarrow> if c = CHR ''+'' \<or> c = CHR ''-'' then r else t | [] \<Rightarrow> t);
          z = takeWhile isDigit u
      in if z = [] then NaN else Num (sign * digitsValue 0 z))"

text \<open>
  \<^verbatim>\<open>parseInt(undefined, 10)\<close> converts \<^verbatim>\<open>undefined\<close> to the string \<^verbatim>\<open>"undefined"\<close> first;
  an optional string stands for a value that may be \<^verbatim>\<open>undefined\<close>.
\<close>

definition parseIntOpt :: "string option \<Rightarrow> jsnum" where
  "parseIntOpt v = (case v of None \<Rightarrow> parseInt ''undefined'' | Some s \<Rightarrow> parseInt s)"

subsection \<open>\<^verbatim>\<open>String.prototype.includes\<close> and \<^verbatim>\<open>String.prototype.split\<close>\<close>

fun startsWith :: "string \<Rightarrow> string \<Rightarrow> bool" where
  "startsWith s [] = True"
| "startsWith [] (p # ps) = False"
| "startsWith (c # cs) (p # ps) = (c = p \<and> startsWith cs ps)"

fun includes_str :: "string \<Rightarrow> string \<Rightarrow> bool" where
  "includes_str [] p = (p = [])"
| "includes_str (c # cs) p = (startsWith (c # cs) p \<or> includes_str cs p)"

text \<open>
  \<^verbatim>\<open>s.split(d)\<close> for a one-character separator: the pieces between the separators, in
  order; a string without the separator is the only piece. The result is never empty, so
  the last case below is never taken.
\<close>

fun split_str :: "char \<Rightarrow> string \<Rightarrow> string list" where
  "split_str d [] = [[]]"
| "split_str d (c # cs) =
     (if c = d then [] # split_str d cs
      else (case split_str d cs of
              w # ws \<Rightarrow> (c # w) # ws
            | [] \<Rightarrow> [[c]]))"

text \<open>\<^verbatim>\<open>xs[i]\<close>: an index out of range reads \<^verbatim>\<open>undefined\<close>.\<close>

definition at_index :: "'a list \<Rightarrow> nat \<Rightarrow> 'a option" where
  "at_index xs i = (if i < length xs then Some (xs ! i) else None)"

section \<open>The server definition\<close>

text \<open>
  The handler receives \<^verbatim>\<open>server\<close> untyped. The model follows the configuration file's
  shape: \<^verbatim>\<open>command\<close> is a string; \<^verbatim>\<open>args\<close> is absent (or not an array: \<^verbatim>\<open>Array.isArray\<close>
  is false) or an array; \<^verbatim>\<open>env\<close> is absent or an object with string values.

  An element of \<^verbatim>\<open>args\<close> is a string, or a value that is not a string (a number, a
  boolean or a plain object; nested arrays are outside the model), kept as the string
  \<^verbatim>\<open>ToString\<close> makes of it: the code only calls \<^verbatim>\<open>.includes\<close> on an element (a
  \<^verbatim>\<open>TypeError\<close> for these values), compares it with \<^verbatim>\<open>===\<close> to a string (false) and
  passes it to \<^verbatim>\<open>parseInt\<close> (which converts it with \<^verbatim>\<open>ToString\<close>).
\<close>

datatype argval = Str string | NonStr string

record server =
  command :: string
  args :: "argval list option"
  env :: "(string \<rightharpoonup> string) option"

datatype fault = TypeError string | RangeError string | Error string

fun message :: "fault \<Rightarrow> string" where
  "message (TypeError m) = m"
| "message (RangeError m) = m"
| "message (Error m) = m"

section \<open>Port inference (lines 247-273 of \<^verbatim>\<open>checkMCPServerConnection\<close>)\<close>

text \<open>
  Lines 248-253: \<^verbatim>\<open>let port = 0; if (server.env && server.env.MCP_PORT) port =
  parseInt(server.env.MCP_PORT, 10)\<close>. A string is truthy when it is not empty.
\<close>

definition envPort :: "server \<Rightarrow> jsnum" where
  "envPort srv =
     (case env srv of
        None \<Rightarrow> Num 0
      | Some e \<Rightarrow>
          (case e ''MCP_PORT'' of
             None \<Rightarrow> Num 0
           | Some v \<Rightarrow> if v \<noteq> [] then parseInt v else Num 0))"

text \<open>\<^verbatim>\<open>parseInt(server.args[i + 1], 10)\<close> on the element after \<^verbatim>\<open>--port\<close>.\<close>

fun parseIntArg :: "argval \<Rightarrow> jsnum" where
  "parseIntArg (Str s) = parseInt s"
| "parseIntArg (NonStr s) = parseInt s"

text \<open>
  Lines 257-267, the loop over \<^verbatim>\<open>server.args\<close>: the first argument is the value of
  \<^verbatim>\<open>port\<close> before the loop, the list is \<^verbatim>\<open>server.args\<close> from index \<^verbatim>\<open>i\<close> on. Both
  branches end with \<^verbatim>\<open>break\<close>. The test \<^verbatim>\<open>i < server.args.length - 1\<close> holds when an
  element follows.
\<close>

fun scanArgs :: "jsnum \<Rightarrow> argval list \<Rightarrow> fault + jsnum" where
  "scanArgs port [] = Inr port"
| "scanArgs port (NonStr v # rest) =
     Inl (TypeError ''server.args[i].includes is not a function'')"
| "scanArgs port (Str s # rest) =
     (if includes_str s ''--port='' then
        Inr (parseIntOpt (at_index (split_str CHR ''='' s) 1))
      else if s = ''--port'' \<and> rest \<noteq> [] then
        Inr (parseIntArg (hd rest))
      else scanArgs port rest)"

text \<open>Lines 256-268: the loop runs only when \<^verbatim>\<open>!port && Array.isArray(server.args)\<close>.\<close>

definition argsPort :: "jsnum \<Rightarrow> server \<Rightarrow> fault + jsnum" where
  "argsPort port srv =
     (if falsy port then
        (case args srv of None \<Rightarrow> Inr port | Some as \<Rightarrow> scanArgs port as)
      else Inr port)"

text \<open>Lines 270-273: \<^verbatim>\<open>if (!port || isNaN(port)) port = 8080\<close>.\<close>

definition defaultPort :: "jsnum \<Rightarrow> jsnum" where
  "defaultPort port = (if falsy port \<or> isNaN port then Num 8080 else port)"

text \<open>The port the socket is connected to, or the fault the lines raise.\<close>

definition inferPort :: "server \<Rightarrow> fault + jsnum" where
  "inferPort srv =
     (case argsPort (envPort srv) srv of
        Inl f \<Rightarrow> Inl f
      | Inr port \<Rightarrow> Inr (defaultPort port))"

section \<open>The host: child processes, sockets and the console\<close>

text \<open>
  What the code does to its host is recorded in a trace, in execution order. The marker
  \<open>Call_checkMCPServerConnection\<close> records that the probe function was entered, as a spy
  on it would.
\<close>

datatype action =
    Call_exec string
  | Call_checkMCPServerConnection
  | Console_warn string
  | Console_error string fault
  | Socket_new
  | Socket_setTimeout nat
  | Socket_connect jsnum string
  | Socket_destroy
  | Promise_resolve bool

text \<open>
  \<^verbatim>\<open>exec(line, callback)\<close> of \<^verbatim>\<open>child_process\<close>: it throws, or it calls back once with an
  error (the child could not be run or exited non-zero) or without one, or the child
  never ends and the callback is never called.
\<close>

datatype exec_outcome = ExecThrows fault | ExecError | ExecOk | ExecNoCallback

text \<open>
  \<^verbatim>\<open>socket.connect(port, host)\<close> of \<^verbatim>\<open>net\<close>: it throws (Node refuses a port outside
  0..65535 with a \<^verbatim>\<open>RangeError\<close>), or it returns and the socket later emits events; the
  list holds, in order, those of the three events the code listens to. No assumption is
  made on the list: it may be empty, and it may go on after the socket was destroyed.
\<close>

datatype sock_event = Connect | Timeout | SockError

datatype connect_outcome = ConnectThrows fault | Emits "sock_event list"

record host =
  platform :: string
  exec :: "string \<Rightarrow> exec_outcome"
  connect :: "jsnum \<Rightarrow> string \<Rightarrow> connect_outcome"

text \<open>
  A promise is pending, fulfilled with a value or rejected with a fault. For the promise
  of an \<^verbatim>\<open>async\<close> function, rejected means that the function threw, and pending that it
  never returned.
\<close>

datatype 'a promise = Pending | Fulfilled 'a | Rejected fault

section \<open>\<^verbatim>\<open>checkCommandAvailability\<close> (lines 225-238)\<close>

text \<open>The string given to \<^verbatim>\<open>exec\<close>: \<^verbatim>\<open>`${cmd} ${command}`\<close>.\<close>

definition execLine :: "host \<Rightarrow> string \<Rightarrow> string" where
  "execLine h cmd =
     (if platform h = ''win32'' then ''where'' else ''which'') @ '' '' @ cmd"

text \<open>
  A throw inside the executor of \<^verbatim>\<open>new Promise\<close> rejects the promise; the callback
  resolves it with \<^verbatim>\<open>false\<close> on an error and with \<^verbatim>\<open>true\<close> otherwise.
\<close>

definition checkCommandAvailability ::
    "host \<Rightarrow> string \<Rightarrow> action list \<Rightarrow> bool promise \<times> action list" where
  "checkCommandAvailability h cmd tr =
     ((case exec h (execLine h cmd) of
         ExecThrows f \<Rightarrow> Rejected f
       | ExecError \<Rightarrow> Fulfilled False
       | ExecOk \<Rightarrow> Fulfilled True
       | ExecNoCallback \<Rightarrow> Pending),
      tr @ [Call_exec (execLine h cmd)])"

section \<open>\<^verbatim>\<open>checkMCPServerConnection\<close> (lines 241-301)\<close>

text \<open>
  The state of one call: the trace, and the promise the call returns (\<open>None\<close> while it
  is pending). \<^verbatim>\<open>resolve(b)\<close> settles a pending promise and does nothing to a settled one.
\<close>

record probe =
  trace :: "action list"
  settled :: "bool option"

definition resolve :: "bool \<Rightarrow> probe \<Rightarrow> probe" where
  "resolve b st =
     st\<lparr>trace := trace st @ [Promise_resolve b],
        settled := (case settled st of None \<Rightarrow> Some b | Some v \<Rightarrow> Some v)\<rparr>"

definition destroy :: "probe \<Rightarrow> probe" where
  "destroy st = st\<lparr>trace := trace st @ [Socket_destroy]\<rparr>"

text \<open>Lines 280-293: the three listeners.\<close>

fun handler :: "sock_event \<Rightarrow> probe \<Rightarrow> probe" where
  "handler Connect st = resolve True (destroy st)"
| "handler Timeout st = resolve False (destroy st)"
| "handler SockError st = resolve False (destroy st)"

definition dispatch :: "sock_event list \<Rightarrow> probe \<Rightarrow> probe" where
  "dispatch evs st = foldl (\<lambda>s e. handler e s) st evs"

text \<open>
  Lines 247-295, the \<^verbatim>\<open>try\<close> block: the port, the socket, its timeout, its listeners, and
  the call of \<^verbatim>\<open>socket.connect\<close>. It ends with the fault it threw, or with the events the
  socket will emit.
\<close>

definition tryConnect ::
    "host \<Rightarrow> server \<Rightarrow> probe \<Rightarrow> (fault \<times> probe) + (sock_event list \<times> probe)" where
  "tryConnect h srv st =
     (case inferPort srv of
        Inl f \<Rightarrow> Inl (f, st)
      | Inr port \<Rightarrow>
          (let st1 = st\<lparr>trace := trace st @
                  [Socket_new, Socket_setTimeout 1000, Socket_connect port ''localhost'']\<rparr>
           in case connect h port ''localhost'' of
                ConnectThrows f \<Rightarrow> Inl (f, st1)
              | Emits evs \<Rightarrow> Inr (evs, st1)))"

text \<open>Lines 296-299, the \<^verbatim>\<open>catch\<close> block: the fault is logged and the promise resolved.\<close>

definition catchConnect :: "fault \<Rightarrow> probe \<Rightarrow> probe" where
  "catchConnect f st =
     resolve False
       (st\<lparr>trace := trace st @ [Console_error ''Error checking server connection:'' f]\<rparr>)"

text \<open>
  The whole call: the executor runs, then the events are dispatched to the listeners.
  The promise is given with the trace at the end of the events.
\<close>

definition runProbe :: "host \<Rightarrow> server \<Rightarrow> action list \<Rightarrow> probe" where
  "runProbe h srv tr =
     (let st0 = \<lparr>trace = tr @ [Call_checkMCPServerConnection], settled = None\<rparr>
      in case tryConnect h srv st0 of
           Inl (f, st) \<Rightarrow> catchConnect f st
         | Inr (evs, st) \<Rightarrow> dispatch evs st)"

definition checkMCPServerConnection ::
    "host \<Rightarrow> server \<Rightarrow> action list \<Rightarrow> bool promise \<times> action list" where
  "checkMCPServerConnection h srv tr =
     (let st = runProbe h srv tr
      in ((case settled st of None \<Rightarrow> Pending | Some b \<Rightarrow> Fulfilled b), trace st))"

section \<open>The handler of \<^verbatim>\<open>'ping-mcp-server'\<close> (lines 197-213)\<close>

text \<open>
  The \<^verbatim>\<open>server\<close> argument is \<^verbatim>\<open>null\<close>, \<^verbatim>\<open>undefined\<close> or a server definition; reading
  \<^verbatim>\<open>server.command\<close> of the first two throws a \<^verbatim>\<open>TypeError\<close> (the messages are V8's).
\<close>

datatype 'a nullable = Null | Undefined | Object 'a

record health_result =
  success :: bool
  error :: "string option"

text \<open>
  Lines 199-208, the \<^verbatim>\<open>try\<close> block. Its promise is rejected when the block throws:
  \<^verbatim>\<open>await\<close> throws the fault of a rejected promise, and does not return on a pending one.
\<close>

definition pingTry ::
    "host \<Rightarrow> server nullable \<Rightarrow> health_result promise \<times> action list" where
  "pingTry h server =
     (case server of
        Null \<Rightarrow>
          (Rejected (TypeError ''Cannot read properties of null (reading 'command')''), [])
      | Undefined \<Rightarrow>
          (Rejected (TypeError ''Cannot read properties of undefined (reading 'command')''), [])
      | Object srv \<Rightarrow>
          (case checkCommandAvailability h (command srv) [] of
             (Rejected f, tr) \<Rightarrow> (Rejected f, tr)
           | (Pending, tr) \<Rightarrow> (Pending, tr)
           | (Fulfilled isCommandAvailable, tr) \<Rightarrow>
               if \<not> isCommandAvailable then
                 (Fulfilled \<lparr>success = False, error = Some ''Command not available''\<rparr>,
                  tr @ [Console_warn (''Command not available: '' @ command srv)])
               else
                 (case checkMCPServerConnection h srv tr of
                    (Rejected f, tr') \<Rightarrow> (Rejected f, tr')
                  | (Pending, tr') \<Rightarrow> (Pending, tr')
                  | (Fulfilled pingSuccess, tr') \<Rightarrow>
                      (Fulfilled \<lparr>success = pingSuccess, error = None\<rparr>, tr'))))"

text \<open>Lines 209-212, the \<^verbatim>\<open>catch\<close> block, around the \<^verbatim>\<open>try\<close> block.\<close>

definition pingServer ::
    "host \<Rightarrow> string \<Rightarrow> server nullable \<Rightarrow> health_result promise \<times> action list" where
  "pingServer h serverId server =
     (case pingTry h server of
        (Rejected f, tr) \<Rightarrow>
          (Fulfilled \<lparr>success = False, error = Some (message f)\<rparr>,
           tr @ [Console_error (''Error pinging MCP server '' @ serverId @ '':'') f])
      | (Pending, tr) \<Rightarrow> (Pending, tr)
      | (Fulfilled r, tr) \<Rightarrow> (Fulfilled r, tr))"

section \<open>Vocabulary of the properties\<close>

text \<open>
  An element of \<^verbatim>\<open>args\<close> that the loop passes over: a string that does not contain
  \<^verbatim>\<open>--port=\<close> and is not \<^verbatim>\<open>--port\<close>.
\<close>

definition plainArg :: "argval \<Rightarrow> bool" where
  "plainArg a =
     (case a of
        Str s \<Rightarrow> \<not> includes_str s ''--port='' \<and> s \<noteq> ''--port''
      | NonStr v \<Rightarrow> False)"

text \<open>
  A definition with no port-bearing env or args: no \<^verbatim>\<open>MCP_PORT\<close> key, and no element of
  \<^verbatim>\<open>args\<close> of either port-specifier shape.
\<close>

definition noPortInfo :: "server \<Rightarrow> bool" where
  "noPortInfo srv =
     ((case env srv of None \<Rightarrow> True | Some e \<Rightarrow> e ''MCP_PORT'' = None) \<and>
      (case args srv of None \<Rightarrow> True | Some as \<Rightarrow> list_all plainArg as))"

text \<open>
  A host for the concrete runs below: a Linux machine where \<^verbatim>\<open>which\<close> finds the commands
  of \<open>installed\<close> (and \<^verbatim>\<open>exec\<close> throws on a command line with a NUL character, as Node
  does), and where the ports of \<open>listening\<close> accept a connection, every other port of the
  range refuses it, and \<^verbatim>\<open>socket.connect\<close> throws on a port out of range.
\<close>

definition exampleHost :: "string list \<Rightarrow> int list \<Rightarrow> host" where
  "exampleHost installed listening =
     \<lparr>platform = ''linux'',
      exec = (\<lambda>line.
        if CHR 0x00 \<in> set line then
          ExecThrows (TypeError ''The argument 'command' must be a string without null bytes.'')
        else if line \<in> set (map (\<lambda>c. ''which '' @ c) installed) then ExecOk
        else ExecError),
      connect = (\<lambda>port hst.
        case port of
          NaN \<Rightarrow> ConnectThrows (RangeError ''Port should be >= 0 and < 65536.'')
        | Num n \<Rightarrow>
            if n < 0 \<or> 65535 < n then
              ConnectThrows (RangeError ''Port should be >= 0 and < 65536.'')
            else if n \<in> set listening then Emits [Connect]
            else Emits [SockError])\<rparr>"

text \<open>The example host with \<^verbatim>\<open>node\<close> installed and a server listening on port 3000.\<close>

definition nodeHost :: host where
  "nodeHost = exampleHost [''node''] [3000]"

section \<open>Facts about the string functions and the scan\<close>

lemmas port_defs = inferPort_def envPort_def argsPort_def defaultPort_def

lemmas parse_defs = parseInt_def parseIntOpt_def at_index_def isWhiteSpace_def isDigit_def
  digitValue_def

lemmas run_defs = pingServer_def pingTry_def checkCommandAvailability_def execLine_def
  checkMCPServerConnection_def runProbe_def tryConnect_def catchConnect_def dispatch_def
  resolve_def destroy_def

lemma startsWith_iff: "startsWith s p \<longleftrightarrow> (\<exists>b. s = p @ b)"
  by (induction s p rule: startsWith.induct) auto

lemma includes_str_iff: "includes_str s p \<longleftrightarrow> (\<exists>a b. s = a @ p @ b)"
proof (induction s)
  case Nil
  then show ?case by auto
next
  case (Cons c cs)
  show ?case
  proof
    assume "includes_str (c # cs) p"
    then consider "startsWith (c # cs) p" | "includes_str cs p" by auto
    then show "\<exists>a b. c # cs = a @ p @ b"
    proof cases
      case 1
      then obtain b where "c # cs = p @ b" using startsWith_iff by blast
      then have "c # cs = [] @ p @ b" by simp
      then show ?thesis by blast
    next
      case 2
      then obtain a b where "cs = a @ p @ b" using Cons.IH by blast
      then have "c # cs = (c # a) @ p @ b" by simp
      then show ?thesis by blast
    qed
  next
    assume "\<exists>a b. c # cs = a @ p @ b"
    then obtain a b where ab: "c # cs = a @ p @ b" by blast
    show "includes_str (c # cs) p"
    proof (cases a)
      case Nil
      with ab have "startsWith (c # cs) p" using startsWith_iff by fastforce
      then show ?thesis by simp
    next
      case (Cons x a')
      with ab have "cs = a' @ p @ b" by simp
      then have "includes_str cs p" using Cons.IH by blast
      then show ?thesis by simp
    qed
  qed
qed

lemma split_str_not_Nil: "split_str d s \<noteq> []"
  by (induction s) (auto split: list.splits)

lemma hd_split_str: "hd (split_str d s) = takeWhile (\<lambda>c. c \<noteq> d) s"
  by (induction s) (auto simp: split_str_not_Nil split: list.splits)

lemma split_str_first: "d \<notin> set a \<Longrightarrow> split_str d (a @ d # b) = a # split_str d b"
  by (induction a) auto

lemma at_index_1_split:
  assumes "d \<notin> set a"
  shows "at_index (split_str d (a @ d # b)) 1 = Some (takeWhile (\<lambda>c. c \<noteq> d) b)"
proof -
  have "split_str d b \<noteq> []" by (rule split_str_not_Nil)
  then obtain w ws where w: "split_str d b = w # ws" by (cases "split_str d b") auto
  have "w = takeWhile (\<lambda>c. c \<noteq> d) b" using hd_split_str [of d b] w by simp
  then show ?thesis using assms w by (simp add: split_str_first at_index_def)
qed

lemma scanArgs_skip_plain:
  "\<forall>a\<in>set pre. plainArg a \<Longrightarrow> scanArgs p (pre @ rest) = scanArgs p rest"
proof (induction pre)
  case Nil
  then show ?case by simp
next
  case (Cons x pre)
  then obtain s where "x = Str s" "\<not> includes_str s ''--port=''" "s \<noteq> ''--port''"
    by (cases x) (auto simp: plainArg_def)
  with Cons show ?case by simp
qed

lemma scanArgs_plain: "\<forall>a\<in>set pre. plainArg a \<Longrightarrow> scanArgs p pre = Inr p"
  using scanArgs_skip_plain [of pre p "[]"] by simp

lemma scanArgs_first_match:
  assumes "\<forall>a\<in>set pre. plainArg a"
    and "includes_str s ''--port='' \<or> (s = ''--port'' \<and> rest \<noteq> [])"
  shows "scanArgs p (pre @ Str s # rest) =
           Inr (if includes_str s ''--port=''
                then parseIntOpt (at_index (split_str CHR ''='' s) 1)
                else parseIntArg (hd rest))"
  using assms by (auto simp: scanArgs_skip_plain)

lemma inferPort_scan:
  assumes "falsy (envPort srv)" and "args srv = Some as" and "scanArgs (envPort srv) as = Inr p"
  shows "inferPort srv = Inr (defaultPort p)"
  using assms by (simp add: inferPort_def argsPort_def)

lemma inferPort_env_nonzero:
  assumes "env srv = Some e" and "e ''MCP_PORT'' = Some v"
    and "parseInt v = Num n" and "n \<noteq> 0"
  shows "inferPort srv = Inr (Num n)"
proof -
  have "v \<noteq> []" using assms(3) by (auto simp: parseInt_def)
  then have "envPort srv = Num n" using assms by (simp add: envPort_def)
  then show ?thesis using assms(4) by (simp add: inferPort_def argsPort_def defaultPort_def)
qed

section \<open>Facts about the listeners, the probe and the handler\<close>

lemma handler_trace:
  "trace (handler e st) = trace st @ [Socket_destroy, Promise_resolve (e = Connect)]"
  by (cases e) (simp_all add: resolve_def destroy_def)

lemma handler_settled:
  "settled (handler e st) = Some (case settled st of None \<Rightarrow> e = Connect | Some v \<Rightarrow> v)"
  by (cases e) (simp_all add: resolve_def destroy_def split: option.splits)

lemma dispatch_Nil: "dispatch [] st = st"
  by (simp add: dispatch_def)

lemma dispatch_Cons: "dispatch (e # es) st = dispatch es (handler e st)"
  by (simp add: dispatch_def)

lemma dispatch_trace:
  "trace (dispatch evs st) =
     trace st @ concat (map (\<lambda>x. [Socket_destroy, Promise_resolve (x = Connect)]) evs)"
  by (induction evs arbitrary: st) (simp_all add: dispatch_Nil dispatch_Cons handler_trace)

lemma dispatch_settled_Some:
  "settled st = Some b \<Longrightarrow> settled (dispatch evs st) = Some b"
  by (induction evs arbitrary: st) (simp_all add: dispatch_Nil dispatch_Cons handler_settled)

lemma dispatch_settled_None:
  "settled st = None \<Longrightarrow>
   settled (dispatch evs st) = (case evs of [] \<Rightarrow> None | e # es \<Rightarrow> Some (e = Connect))"
  by (cases evs) (simp_all add: dispatch_Nil dispatch_Cons handler_settled dispatch_settled_Some)

lemma runProbe_fault:
  assumes "inferPort srv = Inl f"
  shows "runProbe h srv tr =
           \<lparr>trace = tr @ [Call_checkMCPServerConnection,
                Console_error ''Error checking server connection:'' f, Promise_resolve False],
            settled = Some False\<rparr>"
  using assms by (simp add: runProbe_def tryConnect_def catchConnect_def resolve_def)

lemma runProbe_connect_throws:
  assumes "inferPort srv = Inr port" and "connect h port ''localhost'' = ConnectThrows f"
  shows "runProbe h srv tr =
           \<lparr>trace = tr @ [Call_checkMCPServerConnection, Socket_new, Socket_setTimeout 1000,
                Socket_connect port ''localhost'',
                Console_error ''Error checking server connection:'' f, Promise_resolve False],
            settled = Some False\<rparr>"
  using assms by (simp add: runProbe_def tryConnect_def catchConnect_def resolve_def)

lemma runProbe_emits:
  assumes "inferPort srv = Inr port" and "connect h port ''localhost'' = Emits evs"
  shows "runProbe h srv tr =
           dispatch evs
             \<lparr>trace = tr @ [Call_checkMCPServerConnection, Socket_new, Socket_setTimeout 1000,
                  Socket_connect port ''localhost''],
              settled = None\<rparr>"
  using assms by (simp add: runProbe_def tryConnect_def)

text \<open>
  The promise of the probe: \<^verbatim>\<open>false\<close> on a fault of the \<^verbatim>\<open>try\<close> block, pending while no event
  arrives, and otherwise decided by the first event alone.
\<close>

lemma probe_result:
  "fst (checkMCPServerConnection h srv tr) =
     (case inferPort srv of
        Inl f \<Rightarrow> Fulfilled False
      | Inr port \<Rightarrow>
          (case connect h port ''localhost'' of
             ConnectThrows f \<Rightarrow> Fulfilled False
           | Emits [] \<Rightarrow> Pending
           | Emits (e # es) \<Rightarrow> Fulfilled (e = Connect)))"
proof (cases "inferPort srv")
  case (Inl f)
  then show ?thesis by (simp add: checkMCPServerConnection_def runProbe_fault)
next
  case (Inr port)
  show ?thesis
  proof (cases "connect h port ''localhost''")
    case (ConnectThrows f)
    then show ?thesis using Inr
      by (simp add: checkMCPServerConnection_def runProbe_connect_throws)
  next
    case (Emits evs)
    then show ?thesis using Inr
      by (cases evs)
        (simp_all add: checkMCPServerConnection_def runProbe_emits dispatch_settled_None)
  qed
qed

lemma probe_never_rejected: "fst (checkMCPServerConnection h srv tr) \<noteq> Rejected f"
  by (simp add: probe_result split: sum.splits connect_outcome.splits list.splits)

text \<open>The promise of the handler, by what \<^verbatim>\<open>exec\<close> and the probe do.\<close>

lemma pingServer_Object:
  "fst (pingServer h sid (Object srv)) =
     (case exec h (execLine h (command srv)) of
        ExecThrows f \<Rightarrow> Fulfilled \<lparr>success = False, error = Some (message f)\<rparr>
      | ExecError \<Rightarrow> Fulfilled \<lparr>success = False, error = Some ''Command not available''\<rparr>
      | ExecNoCallback \<Rightarrow> Pending
      | ExecOk \<Rightarrow>
          (case fst (checkMCPServerConnection h srv [Call_exec (execLine h (command srv))]) of
             Pending \<Rightarrow> Pending
           | Fulfilled b \<Rightarrow> Fulfilled \<lparr>success = b, error = None\<rparr>
           | Rejected f \<Rightarrow> Fulfilled \<lparr>success = False, error = Some (message f)\<rparr>))"
  by (simp add: pingServer_def pingTry_def checkCommandAvailability_def
      split: exec_outcome.splits promise.splits prod.splits)

section \<open>Port inference\<close>

text \<open>
  The claim C2 as the specification states it fails when \<^verbatim>\<open>MCP_PORT\<close> parses to the
  integer 0: \<^verbatim>\<open>!port\<close> holds for 0, the loop over \<^verbatim>\<open>args\<close> runs, and \<^verbatim>\<open>--port=1111\<close>
  determines the port.
\<close>

theorem C2_counterexample:
  "parseInt ''0'' = Num 0 \<and>
   inferPort \<lparr>command = ''node'', args = Some [Str ''--port=1111''],
              env = Some [''MCP_PORT'' \<mapsto> ''0'']\<rparr> = Inr (Num 1111)"
  by (simp add: port_defs parse_defs)

text \<open>
  C2 (amended). For every server definition whose env contains \<^verbatim>\<open>MCP_PORT\<close> parsing as a
  base-10 integer other than 0, the inferred port is that integer, whatever \<^verbatim>\<open>args\<close>
  holds.
\<close>

theorem C2_env_port_precedence:
  assumes "env srv = Some e" and "e ''MCP_PORT'' = Some v"
    and "parseInt v = Num n" and "n \<noteq> 0"
  shows "inferPort srv = Inr (Num n) \<and> inferPort (srv\<lparr>args := as\<rparr>) = Inr (Num n)"
proof -
  have "env (srv\<lparr>args := as\<rparr>) = Some e" using assms(1) by simp
  then show ?thesis using assms inferPort_env_nonzero by blast
qed

text \<open>With \<^verbatim>\<open>MCP_PORT = "9999"\<close> and \<^verbatim>\<open>--port=1111\<close> in \<^verbatim>\<open>args\<close>, the port is 9999.\<close>

theorem C2_witness:
  "parseInt ''9999'' = Num 9999 \<and>
   inferPort \<lparr>command = ''node'', args = Some [Str ''--port=1111''],
              env = Some [''MCP_PORT'' \<mapsto> ''9999'']\<rparr> = Inr (Num 9999)"
proof -
  have p: "parseInt ''9999'' = Num 9999" by (simp add: parse_defs)
  show ?thesis
    using p C2_env_port_precedence [of
        "\<lparr>command = ''node'', args = Some [Str ''--port=1111''],
          env = Some [''MCP_PORT'' \<mapsto> ''9999'']\<rparr>"
        "[''MCP_PORT'' \<mapsto> ''9999'']" "''9999''" 9999 "None"]
    by simp
qed

text \<open>
  The claim C3 as the specification states it fails: in \<^verbatim>\<open>["--port", "x", "--port=7"]\<close> the
  first element takes the two-token branch, \<^verbatim>\<open>parseInt("x", 10)\<close> is \<^verbatim>\<open>NaN\<close>, and the
  \<^verbatim>\<open>break\<close> of line 265 ends the loop: \<^verbatim>\<open>--port=7\<close> is never read and the port is 8080.
\<close>

theorem C3_counterexample:
  "inferPort \<lparr>command = ''node'', args = Some [Str ''--port'', Str ''x'', Str ''--port=7''],
              env = None\<rparr> = Inr (Num 8080)"
  by (simp add: port_defs parse_defs)

text \<open>
  C3 (amended). With no usable \<^verbatim>\<open>env.MCP_PORT\<close>, the scan of \<^verbatim>\<open>args\<close> stops at the first
  element of a port-specifier shape (it contains \<^verbatim>\<open>--port=\<close>, or it is \<^verbatim>\<open>--port\<close> and an
  element follows), whether or not the value parsed there is valid: the port is that
  value, or 8080 when the value is \<^verbatim>\<open>NaN\<close> or 0, and no later element is read.
\<close>

theorem C3_scan_stops_at_first_match:
  assumes "falsy (envPort srv)"
    and "args srv = Some (pre @ Str s # rest)"
    and "\<forall>a\<in>set pre. plainArg a"
    and "includes_str s ''--port='' \<or> (s = ''--port'' \<and> rest \<noteq> [])"
  shows "inferPort srv =
           Inr (defaultPort
                  (if includes_str s ''--port=''
                   then parseIntOpt (at_index (split_str CHR ''='' s) 1)
                   else parseIntArg (hd rest)))"
  using inferPort_scan [OF assms(1) assms(2) scanArgs_first_match [OF assms(3) assms(4)]] .

text \<open>
  After the plain element \<^verbatim>\<open>server.js\<close>, the scan stops at \<^verbatim>\<open>--port\<close> with the value
  \<^verbatim>\<open>NaN\<close> of \<^verbatim>\<open>x\<close>; the later \<^verbatim>\<open>--port=7\<close> does not count.
\<close>

theorem C3_witness:
  "falsy (envPort \<lparr>command = ''node'', args = Some [Str ''server.js'', Str ''--port'', Str ''x'', Str ''--port=7''], env = None\<rparr>)
   \<and> plainArg (Str ''server.js'')
   \<and> parseIntArg (Str ''x'') = NaN
   \<and> inferPort \<lparr>command = ''node'', args = Some [Str ''server.js'', Str ''--port'', Str ''x'', Str ''--port=7''], env = None\<rparr> = Inr (Num 8080)"
proof -
  let ?srv = "\<lparr>command = ''node'', args = Some [Str ''server.js'', Str ''--port'', Str ''x'', Str ''--port=7''], env = None\<rparr>"
  have a: "falsy (envPort ?srv)" by (simp add: envPort_def)
  have b: "args ?srv = Some ([Str ''server.js''] @ Str ''--port'' # [Str ''x'', Str ''--port=7''])" by simp
  have c: "\<forall>a\<in>set [Str ''server.js'']. plainArg a" by (simp add: plainArg_def)
  have d: "includes_str ''--port'' ''--port='' \<or> (''--port'' = ''--port'' \<and> [Str ''x'', Str ''--port=7''] \<noteq> [])" by simp
  have e: "parseIntArg (Str ''x'') = NaN" by (simp add: parse_defs)
  show ?thesis
    using a c e C3_scan_stops_at_first_match [OF a b c d]
    by (simp add: defaultPort_def)
qed

text \<open>
  C4. When \<^verbatim>\<open>env.MCP_PORT\<close> gives no usable port (absent, empty, \<^verbatim>\<open>NaN\<close> or 0) and the
  scan of \<^verbatim>\<open>args\<close> does not either (no array, or the scan ends with \<^verbatim>\<open>NaN\<close> or 0), the
  inferred port is exactly 8080; so it is for a definition with no port-bearing env or
  args at all.
\<close>

theorem C4_default_port:
  "(falsy (envPort srv) \<and>
      (args srv = None \<or>
       (\<exists>as p. args srv = Some as \<and> scanArgs (envPort srv) as = Inr p \<and> falsy p))
     \<longrightarrow> inferPort srv = Inr (Num 8080))
   \<and> (noPortInfo srv \<longrightarrow> inferPort srv = Inr (Num 8080))"
proof (intro conjI impI)
  assume h: "falsy (envPort srv) \<and>
      (args srv = None \<or>
       (\<exists>as p. args srv = Some as \<and> scanArgs (envPort srv) as = Inr p \<and> falsy p))"
  then have f: "falsy (envPort srv)" by simp
  from h consider "args srv = None"
    | as p where "args srv = Some as" "scanArgs (envPort srv) as = Inr p" "falsy p"
    by auto
  then show "inferPort srv = Inr (Num 8080)"
  proof cases
    case 1
    then show ?thesis using f by (simp add: inferPort_def argsPort_def defaultPort_def)
  next
    case 2
    then show ?thesis using f by (simp add: inferPort_def argsPort_def defaultPort_def)
  qed
next
  assume n: "noPortInfo srv"
  then have e: "envPort srv = Num 0"
    by (auto simp: noPortInfo_def envPort_def split: option.splits)
  show "inferPort srv = Inr (Num 8080)"
  proof (cases "args srv")
    case None
    then show ?thesis using e by (simp add: inferPort_def argsPort_def defaultPort_def)
  next
    case (Some as)
    then have "\<forall>a\<in>set as. plainArg a" using n by (simp add: noPortInfo_def list_all_iff)
    then have "scanArgs (Num 0) as = Inr (Num 0)" by (rule scanArgs_plain)
    then show ?thesis using e Some by (simp add: inferPort_def argsPort_def defaultPort_def)
  qed
qed

text \<open>
  \<^verbatim>\<open>MCP_PORT = "auto"\<close> with \<^verbatim>\<open>--port=0\<close>, and a definition without any port information.
\<close>

theorem C4_witness:
  "falsy (envPort \<lparr>command = ''node'', args = Some [Str ''--port=0''], env = Some [''MCP_PORT'' \<mapsto> ''auto'']\<rparr>)
   \<and> scanArgs NaN [Str ''--port=0''] = Inr (Num 0)
   \<and> inferPort \<lparr>command = ''node'', args = Some [Str ''--port=0''], env = Some [''MCP_PORT'' \<mapsto> ''auto'']\<rparr> = Inr (Num 8080)
   \<and> noPortInfo \<lparr>command = ''npx'', args = Some [Str ''-y'', Str ''some-server''], env = Some [''API_KEY'' \<mapsto> ''k'']\<rparr>
   \<and> inferPort \<lparr>command = ''npx'', args = Some [Str ''-y'', Str ''some-server''], env = Some [''API_KEY'' \<mapsto> ''k'']\<rparr> = Inr (Num 8080)"
proof -
  let ?s1 = "\<lparr>command = ''node'', args = Some [Str ''--port=0''], env = Some [''MCP_PORT'' \<mapsto> ''auto'']\<rparr>"
  let ?s2 = "\<lparr>command = ''npx'', args = Some [Str ''-y'', Str ''some-server''], env = Some [''API_KEY'' \<mapsto> ''k'']\<rparr>"
  have e: "envPort ?s1 = NaN" by (simp add: envPort_def parse_defs)
  have s: "scanArgs NaN [Str ''--port=0''] = Inr (Num 0)" by (simp add: parse_defs)
  have n: "noPortInfo ?s2" by (simp add: noPortInfo_def plainArg_def)
  have h: "falsy (envPort ?s1) \<and>
      (args ?s1 = None \<or>
       (\<exists>as p. args ?s1 = Some as \<and> scanArgs (envPort ?s1) as = Inr p \<and> falsy p))"
    using e s by simp
  show ?thesis
    using e s n h C4_default_port [of ?s1] C4_default_port [of ?s2]
    by simp
qed

text \<open>
  The example of claim C7 fails: \<^verbatim>\<open>--my-port=5\<close> has a single dash before \<^verbatim>\<open>port\<close>, so it
  does not contain \<^verbatim>\<open>--port=\<close>; it is no port specifier for the code, and the port is
  8080.
\<close>

theorem C7_counterexample:
  "\<not> includes_str ''--my-port=5'' ''--port=''
   \<and> inferPort \<lparr>command = ''node'', args = Some [Str ''--my-port=5''], env = None\<rparr>
       = Inr (Num 8080)"
  by (simp add: port_defs)

text \<open>
  C7 (amended). With no usable \<^verbatim>\<open>env.MCP_PORT\<close>, an element of \<^verbatim>\<open>args\<close> that contains
  \<^verbatim>\<open>--port=\<close> anywhere in it (the first element of a port-specifier shape) is treated as
  a port specifier: the port is parsed from the second piece of its split at \<^verbatim>\<open>=\<close>; when no
  \<^verbatim>\<open>=\<close> stands before \<^verbatim>\<open>--port=\<close>, that piece is what follows \<^verbatim>\<open>--port=\<close> up to the next
  \<^verbatim>\<open>=\<close>.
\<close>

theorem C7_substring_match:
  assumes "falsy (envPort srv)"
    and "args srv = Some (pre @ Str (a @ ''--port='' @ b) # rest)"
    and "\<forall>x\<in>set pre. plainArg x"
  shows "inferPort srv =
           Inr (defaultPort (parseIntOpt (at_index (split_str CHR ''='' (a @ ''--port='' @ b)) 1)))
         \<and> (CHR ''='' \<notin> set a \<longrightarrow>
              inferPort srv = Inr (defaultPort (parseInt (takeWhile (\<lambda>c. c \<noteq> CHR ''='') b))))"
proof -
  have i: "includes_str (a @ ''--port='' @ b) ''--port=''"
    using includes_str_iff by blast
  then have m: "includes_str (a @ ''--port='' @ b) ''--port='' \<or> (a @ ''--port='' @ b = ''--port'' \<and> rest \<noteq> [])"
    by simp
  have 1: "inferPort srv =
           Inr (defaultPort (parseIntOpt (at_index (split_str CHR ''='' (a @ ''--port='' @ b)) 1)))"
    using inferPort_scan [OF assms(1) assms(2) scanArgs_first_match [OF assms(3) m]] i by simp
  have 2: "inferPort srv = Inr (defaultPort (parseInt (takeWhile (\<lambda>c. c \<noteq> CHR ''='') b)))"
    if "CHR ''='' \<notin> set a"
  proof -
    have "CHR ''='' \<notin> set (a @ ''--port'')" using that by simp
    then have "at_index (split_str CHR ''='' ((a @ ''--port'') @ CHR ''='' # b)) 1
                 = Some (takeWhile (\<lambda>c. c \<noteq> CHR ''='') b)"
      by (rule at_index_1_split)
    then show ?thesis using 1 by (simp add: parseIntOpt_def)
  qed
  show ?thesis using 1 2 by blast
qed

text \<open>
  \<^verbatim>\<open>--inspect--port=5\<close> does not start with \<^verbatim>\<open>--port=\<close>, and it gives the port 5.
\<close>

theorem C7_witness:
  "falsy (envPort \<lparr>command = ''node'', args = Some [Str ''--inspect--port=5''], env = None\<rparr>)
   \<and> \<not> startsWith ''--inspect--port=5'' ''--port=''
   \<and> inferPort \<lparr>command = ''node'', args = Some [Str ''--inspect--port=5''], env = None\<rparr>
       = Inr (Num 5)"
proof -
  let ?srv = "\<lparr>command = ''node'', args = Some [Str ''--inspect--port=5''], env = None\<rparr>"
  have a: "falsy (envPort ?srv)" by (simp add: envPort_def)
  have b: "args ?srv = Some ([] @ Str (''--inspect'' @ ''--port='' @ ''5'') # [])" by simp
  have c: "\<forall>x\<in>set []. plainArg x" by simp
  show ?thesis
    using a C7_substring_match [OF a b c]
    by (simp add: defaultPort_def parse_defs)
qed

text \<open>
  C8. When \<^verbatim>\<open>args\<close> ends with \<^verbatim>\<open>--port\<close> and there is no other port source, port
  inference raises no fault: the two-token rule needs a following element, and the port
  is the default 8080.
\<close>

theorem C8_trailing_port_flag:
  assumes "falsy (envPort srv)"
    and "args srv = Some (pre @ [Str ''--port''])"
    and "\<forall>x\<in>set pre. plainArg x"
  shows "inferPort srv = Inr (Num 8080)"
proof -
  have "scanArgs (envPort srv) (pre @ [Str ''--port'']) = scanArgs (envPort srv) [Str ''--port'']"
    using assms(3) by (rule scanArgs_skip_plain)
  then have "scanArgs (envPort srv) (pre @ [Str ''--port'']) = Inr (envPort srv)" by simp
  then have "inferPort srv = Inr (defaultPort (envPort srv))"
    using inferPort_scan [OF assms(1) assms(2)] by simp
  then show ?thesis using assms(1) by (simp add: defaultPort_def)
qed

text \<open>\<^verbatim>\<open>["server.js", "--port"]\<close> gives the port 8080.\<close>

theorem C8_witness:
  "falsy (envPort \<lparr>command = ''node'', args = Some [Str ''server.js'', Str ''--port''], env = None\<rparr>)
   \<and> plainArg (Str ''server.js'')
   \<and> inferPort \<lparr>command = ''node'', args = Some [Str ''server.js'', Str ''--port''], env = None\<rparr> = Inr (Num 8080)"
proof -
  let ?srv = "\<lparr>command = ''node'', args = Some [Str ''server.js'', Str ''--port''], env = None\<rparr>"
  have a: "falsy (envPort ?srv)" by (simp add: envPort_def)
  have b: "args ?srv = Some ([Str ''server.js''] @ [Str ''--port''])" by simp
  have c: "\<forall>x\<in>set [Str ''server.js'']. plainArg x" by (simp add: plainArg_def)
  show ?thesis
    using a c C8_trailing_port_flag [OF a b c]
    by simp
qed

section \<open>The liveness probe\<close>

text \<open>
  The claim C9 as the specification states it fails on the execution where
  \<^verbatim>\<open>socket.connect\<close> throws (here on the port -1): none of the three listeners runs, the
  \<^verbatim>\<open>catch\<close> block of lines 296-299 resolves the result, and the socket is not destroyed.
\<close>

theorem C9_counterexample:
  "checkMCPServerConnection nodeHost
     \<lparr>command = ''node'', args = None, env = Some [''MCP_PORT'' \<mapsto> ''-1'']\<rparr> [] =
     (Fulfilled False,
      [Call_checkMCPServerConnection, Socket_new, Socket_setTimeout 1000,
       Socket_connect (Num (- 1)) ''localhost'',
       Console_error ''Error checking server connection:''
         (RangeError ''Port should be >= 0 and < 65536.''),
       Promise_resolve False])
   \<and> Socket_destroy \<notin> set (snd (checkMCPServerConnection nodeHost
         \<lparr>command = ''node'', args = None, env = Some [''MCP_PORT'' \<mapsto> ''-1'']\<rparr> []))"
  by (simp add: port_defs parse_defs run_defs nodeHost_def exampleHost_def)

text \<open>
  C9 (amended). In every execution of the probe where \<^verbatim>\<open>socket.connect\<close> returns and the
  socket emits at least one of its three events, the first event alone resolves the
  result (\<^verbatim>\<open>true\<close> for a connection, \<^verbatim>\<open>false\<close> for a timeout or an error), its listener
  destroys the socket before it resolves, and every later event leaves the resolved
  result as it is: its listener destroys the socket again and its \<^verbatim>\<open>resolve\<close> is without
  effect.
\<close>

theorem C9_first_event_wins:
  assumes "inferPort srv = Inr port"
    and "connect h port ''localhost'' = Emits (e # es)"
  shows "checkMCPServerConnection h srv tr =
           (Fulfilled (e = Connect),
            tr @ [Call_checkMCPServerConnection, Socket_new, Socket_setTimeout 1000,
                  Socket_connect port ''localhost'',
                  Socket_destroy, Promise_resolve (e = Connect)]
               @ concat (map (\<lambda>x. [Socket_destroy, Promise_resolve (x = Connect)]) es))
         \<and> (\<forall>x st b. settled st = Some b \<longrightarrow> settled (handler x st) = Some b)"
proof -
  let ?st = "\<lparr>trace = tr @ [Call_checkMCPServerConnection, Socket_new, Socket_setTimeout 1000,
                  Socket_connect port ''localhost''],
              settled = None\<rparr>"
  have r: "runProbe h srv tr = dispatch (e # es) ?st"
    using assms by (rule runProbe_emits)
  have s: "settled (dispatch (e # es) ?st) = Some (e = Connect)"
    by (simp add: dispatch_settled_None)
  have t: "trace (dispatch (e # es) ?st) =
      trace ?st @ concat (map (\<lambda>x. [Socket_destroy, Promise_resolve (x = Connect)]) (e # es))"
    by (rule dispatch_trace)
  have 1: "checkMCPServerConnection h srv tr =
           (Fulfilled (e = Connect),
            tr @ [Call_checkMCPServerConnection, Socket_new, Socket_setTimeout 1000,
                  Socket_connect port ''localhost'',
                  Socket_destroy, Promise_resolve (e = Connect)]
               @ concat (map (\<lambda>x. [Socket_destroy, Promise_resolve (x = Connect)]) es))"
    using r s t by (simp add: checkMCPServerConnection_def)
  have 2: "\<forall>x st b. settled st = Some b \<longrightarrow> settled (handler x st) = Some b"
    by (simp add: handler_settled)
  show ?thesis using 1 2 by blast
qed

text \<open>
  A connection followed by a timeout resolves to \<^verbatim>\<open>true\<close>, a timeout followed by a
  connection to \<^verbatim>\<open>false\<close>.
\<close>

theorem C9_witness:
  "inferPort \<lparr>command = ''node'', args = Some [Str ''--port'', Str ''3000''], env = None\<rparr> =
     Inr (Num 3000)
   \<and> connect (nodeHost\<lparr>connect := \<lambda>port a. Emits [Connect, Timeout]\<rparr>) (Num 3000) ''localhost'' =
       Emits [Connect, Timeout]
   \<and> checkMCPServerConnection (nodeHost\<lparr>connect := \<lambda>port a. Emits [Connect, Timeout]\<rparr>)
       \<lparr>command = ''node'', args = Some [Str ''--port'', Str ''3000''], env = None\<rparr> [] =
       (Fulfilled True,
        [Call_checkMCPServerConnection, Socket_new, Socket_setTimeout 1000,
         Socket_connect (Num 3000) ''localhost'',
         Socket_destroy, Promise_resolve True, Socket_destroy, Promise_resolve False])
   \<and> checkMCPServerConnection (nodeHost\<lparr>connect := \<lambda>port a. Emits [Timeout, Connect]\<rparr>)
       \<lparr>command = ''node'', args = Some [Str ''--port'', Str ''3000''], env = None\<rparr> [] =
       (Fulfilled False,
        [Call_checkMCPServerConnection, Socket_new, Socket_setTimeout 1000,
         Socket_connect (Num 3000) ''localhost'',
         Socket_destroy, Promise_resolve False, Socket_destroy, Promise_resolve True])"
proof -
  let ?srv = "\<lparr>command = ''node'', args = Some [Str ''--port'', Str ''3000''], env = None\<rparr>"
  let ?h1 = "nodeHost\<lparr>connect := \<lambda>port a. Emits [Connect, Timeout]\<rparr>"
  let ?h2 = "nodeHost\<lparr>connect := \<lambda>port a. Emits [Timeout, Connect]\<rparr>"
  have i: "inferPort ?srv = Inr (Num 3000)" by (simp add: port_defs parse_defs)
  have c1: "connect ?h1 (Num 3000) ''localhost'' = Emits (Connect # [Timeout])" by simp
  have c2: "connect ?h2 (Num 3000) ''localhost'' = Emits (Timeout # [Connect])" by simp
  show ?thesis
    using i c1 C9_first_event_wins [OF i c1, of "[]"] C9_first_event_wins [OF i c2, of "[]"]
    by simp
qed

text \<open>
  C10. A negative port is not replaced by the default: only \<^verbatim>\<open>NaN\<close> and 0 are. With
  \<^verbatim>\<open>env.MCP_PORT\<close> parsing to a negative integer (as \<^verbatim>\<open>"-1"\<close> does), that integer is the
  inferred port and \<^verbatim>\<open>socket.connect\<close> is called with it; when the call throws, the fault
  is caught inside the probe, which resolves to \<^verbatim>\<open>false\<close> and is not rejected; so it does
  when the socket emits an error instead.
\<close>

theorem C10_negative_port:
  assumes "env srv = Some e" and "e ''MCP_PORT'' = Some v"
    and "parseInt v = Num n" and "n < 0"
  shows "inferPort srv = Inr (Num n)
         \<and> (\<forall>p. defaultPort p = (if p = NaN \<or> p = Num 0 then Num 8080 else p))
         \<and> (\<forall>f. connect h (Num n) ''localhost'' = ConnectThrows f \<longrightarrow>
              checkMCPServerConnection h srv tr =
                (Fulfilled False,
                 tr @ [Call_checkMCPServerConnection, Socket_new, Socket_setTimeout 1000,
                       Socket_connect (Num n) ''localhost'',
                       Console_error ''Error checking server connection:'' f,
                       Promise_resolve False]))
         \<and> (\<forall>es. connect h (Num n) ''localhost'' = Emits (SockError # es) \<longrightarrow>
              fst (checkMCPServerConnection h srv tr) = Fulfilled False)"
proof -
  have "n \<noteq> 0" using assms(4) by simp
  then have i: "inferPort srv = Inr (Num n)"
    using assms(1-3) by (rule inferPort_env_nonzero [rotated 3])
  have d: "\<forall>p. defaultPort p = (if p = NaN \<or> p = Num 0 then Num 8080 else p)"
  proof
    fix p show "defaultPort p = (if p = NaN \<or> p = Num 0 then Num 8080 else p)"
      by (cases p) (simp_all add: defaultPort_def)
  qed
  have t: "\<forall>f. connect h (Num n) ''localhost'' = ConnectThrows f \<longrightarrow>
              checkMCPServerConnection h srv tr =
                (Fulfilled False,
                 tr @ [Call_checkMCPServerConnection, Socket_new, Socket_setTimeout 1000,
                       Socket_connect (Num n) ''localhost'',
                       Console_error ''Error checking server connection:'' f,
                       Promise_resolve False])"
    using i by (simp add: checkMCPServerConnection_def runProbe_connect_throws)
  have a: "\<forall>es. connect h (Num n) ''localhost'' = Emits (SockError # es) \<longrightarrow>
              fst (checkMCPServerConnection h srv tr) = Fulfilled False"
    using i by (simp add: probe_result)
  show ?thesis using i d t a by blast
qed

text \<open>
  \<^verbatim>\<open>MCP_PORT = "-1"\<close> on the example host: the port is -1, \<^verbatim>\<open>socket.connect\<close> throws a
  \<^verbatim>\<open>RangeError\<close>, and the probe resolves to \<^verbatim>\<open>false\<close>.
\<close>

theorem C10_witness:
  "parseInt ''-1'' = Num (- 1)
   \<and> inferPort \<lparr>command = ''node'', args = Some [Str ''--port=3000''],
                env = Some [''MCP_PORT'' \<mapsto> ''-1'']\<rparr> = Inr (Num (- 1))
   \<and> connect nodeHost (Num (- 1)) ''localhost'' =
       ConnectThrows (RangeError ''Port should be >= 0 and < 65536.'')
   \<and> checkMCPServerConnection nodeHost
       \<lparr>command = ''node'', args = Some [Str ''--port=3000''],
         env = Some [''MCP_PORT'' \<mapsto> ''-1'']\<rparr> [] =
       (Fulfilled False,
        [Call_checkMCPServerConnection, Socket_new, Socket_setTimeout 1000,
         Socket_connect (Num (- 1)) ''localhost'',
         Console_error ''Error checking server connection:''
           (RangeError ''Port should be >= 0 and < 65536.''),
         Promise_resolve False])"
proof -
  let ?srv = "\<lparr>command = ''node'', args = Some [Str ''--port=3000''],
                env = Some [''MCP_PORT'' \<mapsto> ''-1'']\<rparr>"
  have e: "env ?srv = Some [''MCP_PORT'' \<mapsto> ''-1'']" by simp
  have v: "[''MCP_PORT'' \<mapsto> ''-1''] ''MCP_PORT'' = Some ''-1''" by simp
  have p: "parseInt ''-1'' = Num (- 1)" by (simp add: parse_defs)
  have n: "(- 1 :: int) < 0" by simp
  have c: "connect nodeHost (Num (- 1)) ''localhost'' =
       ConnectThrows (RangeError ''Port should be >= 0 and < 65536.'')"
    by (simp add: nodeHost_def exampleHost_def)
  show ?thesis
    using p c C10_negative_port [OF e v p n, of nodeHost "[]"]
    by simp
qed

section \<open>The health check\<close>

text \<open>
  The claim C1 as the specification states it fails for an unresolvable command on which
  \<^verbatim>\<open>exec\<close> throws instead of calling back: \<open>checkCommandAvailability\<close> has no \<^verbatim>\<open>try\<close> of its
  own, its promise is rejected, and the \<^verbatim>\<open>catch\<close> block of the handler returns the message
  of \<^verbatim>\<open>exec\<close>, not \<^verbatim>\<open>"Command not available"\<close>. Here the command is a single NUL character.
\<close>

theorem C1_counterexample:
  "exec nodeHost (execLine nodeHost [CHR 0x00]) =
     ExecThrows (TypeError ''The argument 'command' must be a string without null bytes.'')
   \<and> pingServer nodeHost ''files'' (Object \<lparr>command = [CHR 0x00], args = None, env = None\<rparr>) =
       (Fulfilled \<lparr>success = False,
          error = Some ''The argument 'command' must be a string without null bytes.''\<rparr>,
        [Call_exec (''which '' @ [CHR 0x00]),
         Console_error ''Error pinging MCP server files:''
           (TypeError ''The argument 'command' must be a string without null bytes.'')])
   \<and> fst (pingServer nodeHost ''files''
         (Object \<lparr>command = [CHR 0x00], args = None, env = None\<rparr>)) \<noteq>
       Fulfilled \<lparr>success = False, error = Some ''Command not available''\<rparr>"
  by (simp add: run_defs nodeHost_def exampleHost_def)

text \<open>
  C1 (amended). When the command of a server definition is not resolvable on the host,
  \<open>checkMCPServerConnection\<close> is not called and no socket is connected: so it is whenever
  \<^verbatim>\<open>exec\<close> does not call back without an error. When the callback of \<^verbatim>\<open>exec\<close> gets an error,
  \<open>pingServer\<close> returns exactly \<^verbatim>\<open>{success: false, error: "Command not available"}\<close>, and
  its whole trace is the call of \<^verbatim>\<open>exec\<close> and the warning. When \<^verbatim>\<open>exec\<close> itself throws,
  \<open>pingServer\<close> returns \<^verbatim>\<open>{success: false, error: <the message of the fault>}\<close>, and its
  whole trace is the call of \<^verbatim>\<open>exec\<close> and the logged fault.
\<close>

theorem C1_command_not_available:
  "(exec h (execLine h (command srv)) = ExecError \<longrightarrow>
      pingServer h serverId (Object srv) =
        (Fulfilled \<lparr>success = False, error = Some ''Command not available''\<rparr>,
         [Call_exec (execLine h (command srv)),
          Console_warn (''Command not available: '' @ command srv)]))
   \<and> (\<forall>f. exec h (execLine h (command srv)) = ExecThrows f \<longrightarrow>
      pingServer h serverId (Object srv) =
        (Fulfilled \<lparr>success = False, error = Some (message f)\<rparr>,
         [Call_exec (execLine h (command srv)),
          Console_error (''Error pinging MCP server '' @ serverId @ '':'') f]))
   \<and> (exec h (execLine h (command srv)) \<noteq> ExecOk \<longrightarrow>
      Call_checkMCPServerConnection \<notin> set (snd (pingServer h serverId (Object srv)))
      \<and> (\<forall>port a. Socket_connect port a \<notin> set (snd (pingServer h serverId (Object srv)))))"
proof (intro conjI allI impI)
  assume "exec h (execLine h (command srv)) = ExecError"
  then show "pingServer h serverId (Object srv) =
        (Fulfilled \<lparr>success = False, error = Some ''Command not available''\<rparr>,
         [Call_exec (execLine h (command srv)),
          Console_warn (''Command not available: '' @ command srv)])"
    by (simp add: pingServer_def pingTry_def checkCommandAvailability_def)
next
  fix f
  assume "exec h (execLine h (command srv)) = ExecThrows f"
  then show "pingServer h serverId (Object srv) =
        (Fulfilled \<lparr>success = False, error = Some (message f)\<rparr>,
         [Call_exec (execLine h (command srv)),
          Console_error (''Error pinging MCP server '' @ serverId @ '':'') f])"
    by (simp add: pingServer_def pingTry_def checkCommandAvailability_def)
next
  assume n: "exec h (execLine h (command srv)) \<noteq> ExecOk"
  then show "Call_checkMCPServerConnection \<notin> set (snd (pingServer h serverId (Object srv)))"
    by (cases "exec h (execLine h (command srv))")
      (simp_all add: pingServer_def pingTry_def checkCommandAvailability_def)
next
  fix port a
  assume n: "exec h (execLine h (command srv)) \<noteq> ExecOk"
  then show "Socket_connect port a \<notin> set (snd (pingServer h serverId (Object srv)))"
    by (cases "exec h (execLine h (command srv))")
      (simp_all add: pingServer_def pingTry_def checkCommandAvailability_def)
qed

text \<open>
  On the example host, the check of a server launched with the missing \<^verbatim>\<open>uvx\<close> runs
  \<^verbatim>\<open>which uvx\<close>, warns and returns the classified failure; the check of a command with a
  NUL character returns the message of \<^verbatim>\<open>exec\<close>; neither enters the probe.
\<close>

theorem C1_witness:
  "exec nodeHost (execLine nodeHost ''uvx'') = ExecError
   \<and> pingServer nodeHost ''files'' (Object \<lparr>command = ''uvx'', args = None, env = None\<rparr>) =
       (Fulfilled \<lparr>success = False, error = Some ''Command not available''\<rparr>,
        [Call_exec ''which uvx'', Console_warn ''Command not available: uvx''])
   \<and> Call_checkMCPServerConnection \<notin>
       set (snd (pingServer nodeHost ''files''
         (Object \<lparr>command = ''uvx'', args = None, env = None\<rparr>)))
   \<and> exec nodeHost (execLine nodeHost [CHR 0x00]) =
       ExecThrows (TypeError ''The argument 'command' must be a string without null bytes.'')
   \<and> fst (pingServer nodeHost ''files''
         (Object \<lparr>command = [CHR 0x00], args = None, env = None\<rparr>)) =
       Fulfilled \<lparr>success = False,
         error = Some ''The argument 'command' must be a string without null bytes.''\<rparr>
   \<and> Call_checkMCPServerConnection \<notin>
       set (snd (pingServer nodeHost ''files''
         (Object \<lparr>command = [CHR 0x00], args = None, env = None\<rparr>)))"
proof -
  let ?uvx = "\<lparr>command = ''uvx'', args = None, env = None\<rparr>"
  let ?nul = "\<lparr>command = [CHR 0x00], args = None, env = None\<rparr>"
  have u: "exec nodeHost (execLine nodeHost (command ?uvx)) = ExecError"
    by (simp add: nodeHost_def exampleHost_def execLine_def)
  have t: "exec nodeHost (execLine nodeHost (command ?nul)) =
       ExecThrows (TypeError ''The argument 'command' must be a string without null bytes.'')"
    by (simp add: nodeHost_def exampleHost_def execLine_def)
  have l: "execLine nodeHost ''uvx'' = ''which uvx''"
    by (simp add: nodeHost_def exampleHost_def execLine_def)
  show ?thesis
    using u t l
      C1_command_not_available [of nodeHost ?uvx "''files''"]
      C1_command_not_available [of nodeHost ?nul "''files''"]
    by simp
qed

text \<open>
  The claim C5 as the specification states it fails for a fault raised inside the probe:
  with the malformed \<^verbatim>\<open>args = [5]\<close>, line 258 throws a \<^verbatim>\<open>TypeError\<close>, the \<^verbatim>\<open>catch\<close> block of
  \<open>checkMCPServerConnection\<close> logs it and resolves \<^verbatim>\<open>false\<close>, and the handler returns
  \<^verbatim>\<open>{success: false}\<close> without the fault's message.
\<close>

theorem C5_counterexample:
  "inferPort \<lparr>command = ''node'', args = Some [NonStr ''5''], env = None\<rparr> =
     Inl (TypeError ''server.args[i].includes is not a function'')
   \<and> pingServer (exampleHost [''node''] []) ''s1''
         (Object \<lparr>command = ''node'', args = Some [NonStr ''5''], env = None\<rparr>) =
       (Fulfilled \<lparr>success = False, error = None\<rparr>,
        [Call_exec ''which node'', Call_checkMCPServerConnection,
         Console_error ''Error checking server connection:''
           (TypeError ''server.args[i].includes is not a function''),
         Promise_resolve False])"
  by (simp add: port_defs run_defs exampleHost_def)

text \<open>
  C5 (amended). \<open>pingServer\<close> never lets an exception escape: its promise is never
  rejected. A fault raised in the handler's own \<^verbatim>\<open>try\<close> block (reading \<^verbatim>\<open>server.command\<close> of
  a \<^verbatim>\<open>null\<close> or \<^verbatim>\<open>undefined\<close> definition, a throw of \<^verbatim>\<open>exec\<close>) is returned as
  \<^verbatim>\<open>{success: false, error: <the fault's message>}\<close>. A fault raised inside
  \<open>checkMCPServerConnection\<close> (port inference on a malformed element of \<^verbatim>\<open>args\<close>, a throw of
  \<^verbatim>\<open>socket.connect\<close>) is caught there, and the handler returns \<^verbatim>\<open>{success: false}\<close> with no
  \<^verbatim>\<open>error\<close> field.
\<close>

theorem C5_no_escape:
  "(\<forall>f. fst (pingServer h sid server) \<noteq> Rejected f)
   \<and> (\<forall>f. fst (pingTry h server) = Rejected f \<longrightarrow>
          fst (pingServer h sid server) =
            Fulfilled \<lparr>success = False, error = Some (message f)\<rparr>)
   \<and> (server = Null \<longrightarrow>
          fst (pingServer h sid server) =
            Fulfilled \<lparr>success = False,
              error = Some ''Cannot read properties of null (reading 'command')''\<rparr>)
   \<and> (server = Undefined \<longrightarrow>
          fst (pingServer h sid server) =
            Fulfilled \<lparr>success = False,
              error = Some ''Cannot read properties of undefined (reading 'command')''\<rparr>)
   \<and> (\<forall>srv f. server = Object srv \<and> exec h (execLine h (command srv)) = ExecThrows f \<longrightarrow>
          fst (pingServer h sid server) =
            Fulfilled \<lparr>success = False, error = Some (message f)\<rparr>)
   \<and> (\<forall>srv f. server = Object srv \<and> exec h (execLine h (command srv)) = ExecOk \<and>
          (inferPort srv = Inl f \<or>
           (\<exists>port. inferPort srv = Inr port \<and> connect h port ''localhost'' = ConnectThrows f)) \<longrightarrow>
          fst (pingServer h sid server) = Fulfilled \<lparr>success = False, error = None\<rparr>)"
proof (intro conjI allI impI)
  fix f
  show "fst (pingServer h sid server) \<noteq> Rejected f"
    by (simp add: pingServer_def split: prod.splits promise.splits)
next
  fix f
  assume "fst (pingTry h server) = Rejected f"
  then show "fst (pingServer h sid server) =
      Fulfilled \<lparr>success = False, error = Some (message f)\<rparr>"
    by (auto simp: pingServer_def split: prod.splits promise.splits)
next
  assume "server = Null"
  then show "fst (pingServer h sid server) =
      Fulfilled \<lparr>success = False,
        error = Some ''Cannot read properties of null (reading 'command')''\<rparr>"
    by (simp add: pingServer_def pingTry_def)
next
  assume "server = Undefined"
  then show "fst (pingServer h sid server) =
      Fulfilled \<lparr>success = False,
        error = Some ''Cannot read properties of undefined (reading 'command')''\<rparr>"
    by (simp add: pingServer_def pingTry_def)
next
  fix srv f
  assume "server = Object srv \<and> exec h (execLine h (command srv)) = ExecThrows f"
  then show "fst (pingServer h sid server) =
      Fulfilled \<lparr>success = False, error = Some (message f)\<rparr>"
    by (simp add: pingServer_Object)
next
  fix srv f
  assume a: "server = Object srv \<and> exec h (execLine h (command srv)) = ExecOk \<and>
          (inferPort srv = Inl f \<or>
           (\<exists>port. inferPort srv = Inr port \<and> connect h port ''localhost'' = ConnectThrows f))"
  then have "fst (checkMCPServerConnection h srv [Call_exec (execLine h (command srv))]) =
      Fulfilled False"
    by (auto simp: probe_result)
  then show "fst (pingServer h sid server) = Fulfilled \<lparr>success = False, error = None\<rparr>"
    using a by (simp add: pingServer_Object)
qed

text \<open>
  A \<^verbatim>\<open>null\<close> and an \<^verbatim>\<open>undefined\<close> definition, a command with a NUL character, and
  \<^verbatim>\<open>args = [5]\<close>, on the example host.
\<close>

theorem C5_witness:
  "fst (pingServer nodeHost ''s1'' Null) =
     Fulfilled \<lparr>success = False,
       error = Some ''Cannot read properties of null (reading 'command')''\<rparr>
   \<and> fst (pingServer nodeHost ''s1'' Undefined) =
       Fulfilled \<lparr>success = False,
         error = Some ''Cannot read properties of undefined (reading 'command')''\<rparr>
   \<and> exec nodeHost (execLine nodeHost [CHR 0x00]) =
       ExecThrows (TypeError ''The argument 'command' must be a string without null bytes.'')
   \<and> fst (pingServer nodeHost ''s1'' (Object \<lparr>command = [CHR 0x00], args = None, env = None\<rparr>)) =
       Fulfilled \<lparr>success = False,
         error = Some ''The argument 'command' must be a string without null bytes.''\<rparr>
   \<and> exec nodeHost (execLine nodeHost ''node'') = ExecOk
   \<and> inferPort \<lparr>command = ''node'', args = Some [NonStr ''5''], env = None\<rparr> =
       Inl (TypeError ''server.args[i].includes is not a function'')
   \<and> fst (pingServer nodeHost ''s1''
         (Object \<lparr>command = ''node'', args = Some [NonStr ''5''], env = None\<rparr>)) =
       Fulfilled \<lparr>success = False, error = None\<rparr>"
proof -
  let ?bad = "\<lparr>command = [CHR 0x00], args = None, env = None\<rparr>"
  let ?mal = "\<lparr>command = ''node'', args = Some [NonStr ''5''], env = None\<rparr>"
  have t: "exec nodeHost (execLine nodeHost [CHR 0x00]) =
       ExecThrows (TypeError ''The argument 'command' must be a string without null bytes.'')"
    by (simp add: nodeHost_def exampleHost_def execLine_def)
  have k: "exec nodeHost (execLine nodeHost ''node'') = ExecOk"
    by (simp add: nodeHost_def exampleHost_def execLine_def)
  have i: "inferPort ?mal = Inl (TypeError ''server.args[i].includes is not a function'')"
    by (simp add: port_defs)
  show ?thesis
    using t k i
      C5_no_escape [of nodeHost "''s1''" Null]
      C5_no_escape [of nodeHost "''s1''" Undefined]
      C5_no_escape [of nodeHost "''s1''" "Object ?bad"]
      C5_no_escape [of nodeHost "''s1''" "Object ?mal"]
    by simp
qed

text \<open>
  C6. Every result \<open>pingServer\<close> returns has its \<^verbatim>\<open>error\<close> field only when \<^verbatim>\<open>success\<close> is
  false. When the command is available and the probe gives \<^verbatim>\<open>false\<close>, the result is
  \<^verbatim>\<open>{success: false}\<close> with no \<^verbatim>\<open>error\<close> field; when the command is missing, the result
  carries \<^verbatim>\<open>error: "Command not available"\<close>: the two outcomes differ.
\<close>

theorem C6_result_shape:
  "(\<forall>r. fst (pingServer h sid server) = Fulfilled r \<longrightarrow> error r \<noteq> None \<longrightarrow> \<not> success r)
   \<and> (exec h (execLine h (command srv)) = ExecOk \<and>
        fst (checkMCPServerConnection h srv tr) = Fulfilled False \<longrightarrow>
        fst (pingServer h sid (Object srv)) = Fulfilled \<lparr>success = False, error = None\<rparr>)
   \<and> (exec h (execLine h (command srv)) = ExecError \<longrightarrow>
        fst (pingServer h sid (Object srv)) =
          Fulfilled \<lparr>success = False, error = Some ''Command not available''\<rparr>)"
proof (intro conjI allI impI)
  fix r
  assume r: "fst (pingServer h sid server) = Fulfilled r" and e: "error r \<noteq> None"
  show "\<not> success r"
  proof (cases server)
    case Null
    then show ?thesis using r by (auto simp: pingServer_def pingTry_def)
  next
    case Undefined
    then show ?thesis using r by (auto simp: pingServer_def pingTry_def)
  next
    case (Object srv')
    then show ?thesis using r e
      by (auto simp: pingServer_Object split: exec_outcome.splits promise.splits)
  qed
next
  assume a: "exec h (execLine h (command srv)) = ExecOk \<and>
        fst (checkMCPServerConnection h srv tr) = Fulfilled False"
  have "fst (checkMCPServerConnection h srv [Call_exec (execLine h (command srv))]) =
      fst (checkMCPServerConnection h srv tr)"
    by (simp add: probe_result)
  then show "fst (pingServer h sid (Object srv)) = Fulfilled \<lparr>success = False, error = None\<rparr>"
    using a by (simp add: pingServer_Object)
next
  assume "exec h (execLine h (command srv)) = ExecError"
  then show "fst (pingServer h sid (Object srv)) =
          Fulfilled \<lparr>success = False, error = Some ''Command not available''\<rparr>"
    by (simp add: pingServer_Object)
qed

text \<open>
  On the example host: \<^verbatim>\<open>node\<close> with nothing listening on 8080, the missing \<^verbatim>\<open>uvx\<close>, and
  \<^verbatim>\<open>node\<close> with the listening port 3000.
\<close>

theorem C6_witness:
  "exec nodeHost (execLine nodeHost ''node'') = ExecOk
   \<and> fst (checkMCPServerConnection nodeHost
          \<lparr>command = ''node'', args = Some [Str ''srv.js''], env = None\<rparr> []) = Fulfilled False
   \<and> fst (pingServer nodeHost ''s1''
          (Object \<lparr>command = ''node'', args = Some [Str ''srv.js''], env = None\<rparr>)) =
        Fulfilled \<lparr>success = False, error = None\<rparr>
   \<and> exec nodeHost (execLine nodeHost ''uvx'') = ExecError
   \<and> fst (pingServer nodeHost ''s2'' (Object \<lparr>command = ''uvx'', args = None, env = None\<rparr>)) =
        Fulfilled \<lparr>success = False, error = Some ''Command not available''\<rparr>
   \<and> fst (pingServer nodeHost ''s3''
          (Object \<lparr>command = ''node'', args = Some [Str ''--port=3000''], env = None\<rparr>)) =
        Fulfilled \<lparr>success = True, error = None\<rparr>"
proof -
  let ?s1 = "\<lparr>command = ''node'', args = Some [Str ''srv.js''], env = None\<rparr>"
  let ?s2 = "\<lparr>command = ''uvx'', args = None, env = None\<rparr>"
  let ?s3 = "\<lparr>command = ''node'', args = Some [Str ''--port=3000''], env = None\<rparr>"
  have k: "exec nodeHost (execLine nodeHost ''node'') = ExecOk"
    by (simp add: nodeHost_def exampleHost_def execLine_def)
  have u: "exec nodeHost (execLine nodeHost ''uvx'') = ExecError"
    by (simp add: nodeHost_def exampleHost_def execLine_def)
  have i: "inferPort ?s1 = Inr (Num 8080)"
    by (simp add: port_defs)
  have p: "fst (checkMCPServerConnection nodeHost ?s1 []) = Fulfilled False"
    by (simp add: probe_result i nodeHost_def exampleHost_def)
  have i3: "inferPort ?s3 = Inr (Num 3000)"
    by (simp add: port_defs parse_defs)
  have t: "fst (pingServer nodeHost ''s3'' (Object ?s3)) = Fulfilled \<lparr>success = True, error = None\<rparr>"
    using k by (simp add: pingServer_Object probe_result i3 nodeHost_def exampleHost_def)
  show ?thesis
    using k u p t
      C6_result_shape [of nodeHost "''s1''" "Object ?s1" ?s1 "[]"]
      C6_result_shape [of nodeHost "''s2''" "Object ?s2" ?s2 "[]"]
    by simp
qed

end
